theory Spec2Isabelle
  imports Main "HOL-Library.Word"
begin

section \<open>The Key managed resource (apis/key/v1alpha1/key\_types.go)\<close>

text \<open>
  Go strings are byte sequences, as HOL's \<open>string\<close> is; \<open>[]byte(s)\<close> is the same
  bytes as 8-bit words. A \<open>float64\<close> is its 64 IEEE-754 bits. A slice or a map that is
  \<open>nil\<close> is \<open>None\<close>, since the JSON encoder tells it from an empty one.
\<close>

type_synonym byte = "8 word"
type_synonym float64 = "64 word"
type_synonym time_Time = int

definition bytes_of :: "string \<Rightarrow> byte list" where
  "bytes_of s = map of_char s"

datatype metav1_Time = metav1_Time time_Time

record KeyParameters =
  Duration :: string
  KeyAlias :: string
  Key :: string
  TeamID :: string
  UserID :: string
  Models :: "string list option"
  MaxBudget :: float64
  BudgetDuration :: string
  Metadata :: "(string \<rightharpoonup> string) option"

text \<open>
  \<open>KeyObservation\<close> has the fields \<open>Key\<close>, \<open>Expires\<close>, \<open>UserID\<close>, \<open>Status\<close>; they carry
  the prefix \<open>obs_\<close> here because \<open>KeyParameters\<close> and \<open>Key\<close> use the same names.
\<close>

record KeyObservation =
  obs_Key :: string
  obs_Expires :: metav1_Time
  obs_UserID :: string
  obs_Status :: string

text \<open>
  \<open>xpv1.ResourceSpec\<close> and \<open>xpv1.ResourceStatus\<close> are inlined into \<open>KeySpec\<close> and
  \<open>KeyStatus\<close>; of the former the controller reads the ProviderConfig reference (a
  pointer, so it may be nil), the latter holds the conditions.
\<close>

record Reference =
  Name :: string

record Condition =
  cond_Type :: string
  cond_Status :: string
  cond_Reason :: string

record KeySpec =
  ProviderConfigReference :: "Reference option"
  ForProvider :: KeyParameters

record KeyStatus =
  Conditions :: "Condition list"
  AtProvider :: KeyObservation

record ObjectMeta =
  Generation :: int
  Annotations :: "(string \<times> string) list"

record Key =
  Meta :: ObjectMeta
  Spec :: KeySpec
  Status :: KeyStatus

text \<open>The sibling kind of the same API group, \<open>Team\<close>, with its one field each way.\<close>

record Team =
  ConfigurableField :: string
  ObservableField :: string

text \<open>
  A \<open>resource.Managed\<close> is an interface value: a pointer to a \<open>Key\<close>, a pointer to a
  record of another kind, or nil. The reconciler passes pointers to records it has loaded,
  so a pointer is modelled by the record it points to, and a method that writes through
  the pointer returns the record as it is afterwards.
\<close>

datatype managed = KeyMg Key | TeamMg Team | NilMg

section \<open>Errors (github.com/pkg/errors)\<close>

text \<open>
  \<open>errors.New msg\<close> and \<open>errors.Wrap err msg\<close>; the message of a wrapped error is the
  wrapper's message, a colon and a space, and the message of the cause.
\<close>

datatype error = New string | Wrap error string

fun Error :: "error \<Rightarrow> string" where
  "Error (New msg) = msg"
| "Error (Wrap err msg) = msg @ '': '' @ Error err"

definition errNotKey :: string where
  "errNotKey = ''managed resource is not a Key custom resource''"

definition errTrackPCUsage :: string where
  "errTrackPCUsage = ''cannot track ProviderConfig usage''"

definition errGetPC :: string where
  "errGetPC = ''cannot get ProviderConfig''"

definition errGetCreds :: string where
  "errGetCreds = ''cannot get credentials''"

definition errNewClient :: string where
  "errNewClient = ''cannot create new Service''"

section \<open>The external client (internal/controller/key/key.go)\<close>

type_synonym ConnectionDetails = "string \<rightharpoonup> byte list"

record ExternalObservation =
  ResourceExists :: bool
  ResourceUpToDate :: bool
  ConnectionDetails :: ConnectionDetails

record ExternalCreation =
  creation_ConnectionDetails :: ConnectionDetails

record ExternalUpdate =
  update_ConnectionDetails :: ConnectionDetails

text \<open>The values the request payload holds behind \<open>interface{}\<close>.\<close>

datatype any =
    StringVal string
  | StringSliceVal "string list option"
  | Float64Val float64
  | StringMapVal "(string \<rightharpoonup> string) option"

record Request =
  Method :: string
  URL :: string
  Header :: "string \<rightharpoonup> string list"
  Body :: "byte list"

text \<open>Of a response \<open>Create\<close> reads the body alone; the status code is not looked at.\<close>

record Response =
  StatusCode :: int
  resp_Body :: "byte list"

text \<open>The anonymous struct \<open>keyResponse\<close> that \<open>Create\<close> decodes the response into.\<close>

record keyResponse =
  resp_Key :: string
  resp_Expires :: time_Time
  resp_UserID :: string
  resp_Status :: string

text \<open>
  What the methods call outside this repository is a parameter of the model: the JSON
  encoder and decoder, the URL parser behind \<open>http.NewRequest\<close>, the HTTP client's \<open>Do\<close>
  and the formatter behind \<open>fmt.Printf\<close>. The remote service is a state of any type \<open>'w\<close>
  that only \<open>client_Do\<close> reads and changes, so that a method's final state tells which
  calls it made.
\<close>

record 'w runtime =
  json_Marshal :: "(string \<rightharpoonup> any) \<Rightarrow> error + byte list"
  url_Parse :: "string \<Rightarrow> error option"
  client_Do :: "Request \<Rightarrow> 'w \<Rightarrow> (error + Response) \<times> 'w"
  json_Decode :: "byte list \<Rightarrow> error + keyResponse"
  fmt_Sprintf :: "string \<Rightarrow> Key \<Rightarrow> string"

text \<open>The process's view of the world: the remote service and what was written to stdout.\<close>

record 'w world =
  remote :: 'w
  stdout :: string

text \<open>
  The struct \<open>external\<close>. Its field \<open>client\<close> is the standard library's
  \<open>http.Client\<close>, whose method \<open>Do\<close> is the runtime's \<open>client_Do\<close>.
\<close>

record 'svc external =
  service :: 'svc
  apiBase :: string
  apiKey :: string

definition fmt_Printf :: "'w runtime \<Rightarrow> string \<Rightarrow> Key \<Rightarrow> 'w world \<Rightarrow> 'w world" where
  "fmt_Printf rt format cr s = s\<lparr>stdout := stdout s @ fmt_Sprintf rt format cr\<rparr>"

text \<open>
  \<open>http.NewRequest\<close> fails when the URL does not parse (the method \<open>POST\<close> is valid);
  otherwise the request has the method, the URL, the body and no header yet.
\<close>

definition http_NewRequest ::
  "'w runtime \<Rightarrow> string \<Rightarrow> string \<Rightarrow> byte list \<Rightarrow> error + Request" where
  "http_NewRequest rt method url body =
     (case url_Parse rt url of
        Some err \<Rightarrow> Inl err
      | None \<Rightarrow> Inr \<lparr>Method = method, URL = url, Header = Map.empty, Body = body\<rparr>)"

definition Header_Set :: "string \<Rightarrow> string \<Rightarrow> Request \<Rightarrow> Request" where
  "Header_Set k v req = req\<lparr>Header := (Header req)(k \<mapsto> [v])\<rparr>"

definition Observe ::
  "'w runtime \<Rightarrow> 'svc external \<Rightarrow> managed \<Rightarrow> 'w world
    \<Rightarrow> (error + ExternalObservation) \<times> managed \<times> 'w world" where
  "Observe rt c mg s =
     (case mg of
        KeyMg cr \<Rightarrow>
          (Inr \<lparr>ResourceExists = True, ResourceUpToDate = True,
                ConnectionDetails = Map.empty\<rparr>,
           mg, fmt_Printf rt ''Observing: %+v'' cr s)
      | _ \<Rightarrow>
          (Inl (New errNotKey), mg, s))"

text \<open>The map literal \<open>payload\<close> of \<open>Create\<close>, built from the record.\<close>

definition Create_payload :: "Key \<Rightarrow> (string \<rightharpoonup> any)" where
  "Create_payload cr =
     [''duration'' \<mapsto> StringVal (Duration (ForProvider (Spec cr))),
      ''key_alias'' \<mapsto> StringVal (KeyAlias (ForProvider (Spec cr))),
      ''key'' \<mapsto> StringVal (Key (ForProvider (Spec cr))),
      ''team_id'' \<mapsto> StringVal (TeamID (ForProvider (Spec cr))),
      ''user_id'' \<mapsto> StringVal (UserID (ForProvider (Spec cr))),
      ''models'' \<mapsto> StringSliceVal (Models (ForProvider (Spec cr))),
      ''max_budget'' \<mapsto> Float64Val (MaxBudget (ForProvider (Spec cr))),
      ''budget_duration'' \<mapsto> StringVal (BudgetDuration (ForProvider (Spec cr))),
      ''metadata'' \<mapsto> StringMapVal (Metadata (ForProvider (Spec cr)))]"

text \<open>The four assignments to \<open>cr.Status.AtProvider\<close>, in the source's order.\<close>

definition set_AtProvider :: "keyResponse \<Rightarrow> Key \<Rightarrow> Key" where
  "set_AtProvider r cr =
     (let cr = cr\<lparr>Status := (Status cr)\<lparr>AtProvider :=
                  (AtProvider (Status cr))\<lparr>obs_Key := resp_Key r\<rparr>\<rparr>\<rparr>;
          cr = cr\<lparr>Status := (Status cr)\<lparr>AtProvider :=
                  (AtProvider (Status cr))\<lparr>obs_Expires := metav1_Time (resp_Expires r)\<rparr>\<rparr>\<rparr>;
          cr = cr\<lparr>Status := (Status cr)\<lparr>AtProvider :=
                  (AtProvider (Status cr))\<lparr>obs_UserID := resp_UserID r\<rparr>\<rparr>\<rparr>;
          cr = cr\<lparr>Status := (Status cr)\<lparr>AtProvider :=
                  (AtProvider (Status cr))\<lparr>obs_Status := resp_Status r\<rparr>\<rparr>\<rparr>
      in cr)"

definition Create ::
  "'w runtime \<Rightarrow> 'svc external \<Rightarrow> managed \<Rightarrow> 'w world
    \<Rightarrow> (error + ExternalCreation) \<times> managed \<times> 'w world" where
  "Create rt c mg s =
     (case mg of
        KeyMg cr \<Rightarrow>
          (case json_Marshal rt (Create_payload cr) of
             Inl err \<Rightarrow> (Inl (Wrap err ''failed to marshal payload''), mg, s)
           | Inr jsonPayload \<Rightarrow>
               (case http_NewRequest rt ''POST'' (apiBase c @ ''/key/generate'') jsonPayload of
                  Inl err \<Rightarrow> (Inl (Wrap err ''failed to create request''), mg, s)
                | Inr req0 \<Rightarrow>
                    (let req1 = Header_Set ''Content-Type'' ''application/json'' req0;
                         req = Header_Set ''Authorization'' (''Bearer '' @ apiKey c) req1
                     in case client_Do rt req (remote s) of
                          (Inl err, w) \<Rightarrow>
                            (Inl (Wrap err ''failed to create key''), mg, s\<lparr>remote := w\<rparr>)
                        | (Inr resp, w) \<Rightarrow>
                            (case json_Decode rt (resp_Body resp) of
                               Inl err \<Rightarrow>
                                 (Inl (Wrap err ''failed to decode key response''), mg,
                                  s\<lparr>remote := w\<rparr>)
                             | Inr r \<Rightarrow>
                                 (Inr \<lparr>creation_ConnectionDetails =
                                         [''key'' \<mapsto> bytes_of (resp_Key r)]\<rparr>,
                                  KeyMg (set_AtProvider r cr),
                                  s\<lparr>remote := w\<rparr>)))))
      | _ \<Rightarrow>
          (Inl (New errNotKey), mg, s))"

definition Update ::
  "'w runtime \<Rightarrow> 'svc external \<Rightarrow> managed \<Rightarrow> 'w world
    \<Rightarrow> (error + ExternalUpdate) \<times> managed \<times> 'w world" where
  "Update rt c mg s =
     (case mg of
        KeyMg cr \<Rightarrow>
          (Inr \<lparr>update_ConnectionDetails = Map.empty\<rparr>,
           mg, fmt_Printf rt ''Updating: %+v'' cr s)
      | _ \<Rightarrow>
          (Inl (New errNotKey), mg, s))"

definition Delete ::
  "'w runtime \<Rightarrow> 'svc external \<Rightarrow> managed \<Rightarrow> 'w world
    \<Rightarrow> error option \<times> managed \<times> 'w world" where
  "Delete rt c mg s =
     (case mg of
        KeyMg cr \<Rightarrow> (None, mg, fmt_Printf rt ''Deleting: %+v'' cr s)
      | _ \<Rightarrow> (Some (New errNotKey), mg, s))"

section \<open>The connector (internal/controller/key/key.go)\<close>

text \<open>
  The ProviderConfig type belongs to the package \<open>apis/v1alpha1\<close>; \<open>Connect\<close> reads
  \<open>pc.Spec.Credentials.Source\<close>, \<open>pc.Spec.Credentials.CommonCredentialSelectors\<close> and
  \<open>pc.Spec.APIBase\<close> of it, the three fields kept here.
\<close>

record CommonCredentialSelectors =
  Fs :: "string option"
  Env :: "string option"
  SecretRef :: "string option"

record ProviderCredentials =
  Source :: string
  CommonCredentialSelectors :: CommonCredentialSelectors

record ProviderConfig =
  Credentials :: ProviderCredentials
  APIBase :: string

text \<open>
  The connector's collaborators, each a function on the cluster's state \<open>'w\<close>: the usage
  tracker, the Kubernetes client's \<open>Get\<close> of a ProviderConfig by name, the credential
  extractor and the injected \<open>newServiceFn\<close>. \<open>data_APIKey\<close> is the expression
  \<open>data[xpv1.ResourceCredentialsSecretAPIKeyKey]\<close>, whose constant is declared outside
  the sources.
\<close>

record ('w, 'svc) connector =
  usage_Track :: "managed \<Rightarrow> 'w \<Rightarrow> error option \<times> 'w"
  kube_Get :: "string \<Rightarrow> 'w \<Rightarrow> (error + ProviderConfig) \<times> 'w"
  resource_CommonCredentialExtractor ::
    "string \<Rightarrow> CommonCredentialSelectors \<Rightarrow> 'w \<Rightarrow> (error + byte list) \<times> 'w"
  newServiceFn :: "byte list \<Rightarrow> 'w \<Rightarrow> (error + 'svc) \<times> 'w"
  data_APIKey :: "byte list \<Rightarrow> string"

text \<open>
  A call either returns or panics: \<open>cr.GetProviderConfigReference().Name\<close> dereferences
  the reference, which is a nil pointer when the record has none.
\<close>

datatype 'a outcome = Returns 'a | Panics

text \<open>
  Modelled from the spec: the generated accessor \<open>GetProviderConfigReference\<close> is not
  among the sources; the spec's data model gives \<open>spec.providerConfigRef\<close> as the
  record's reference to a ProviderConfig, which the accessor returns as it is stored.
\<close>

definition GetProviderConfigReference :: "Key \<Rightarrow> Reference option" where
  "GetProviderConfigReference cr = ProviderConfigReference (Spec cr)"

definition Connect ::
  "('w, 'svc) connector \<Rightarrow> managed \<Rightarrow> 'w \<Rightarrow> (error + 'svc external) outcome \<times> 'w" where
  "Connect c mg w =
     (case mg of
        KeyMg cr \<Rightarrow>
          (case usage_Track c mg w of
             (Some err, w1) \<Rightarrow> (Returns (Inl (Wrap err errTrackPCUsage)), w1)
           | (None, w1) \<Rightarrow>
               (case GetProviderConfigReference cr of
                  None \<Rightarrow> (Panics, w1)
                | Some ref \<Rightarrow>
                    (case kube_Get c (Name ref) w1 of
                       (Inl err, w2) \<Rightarrow> (Returns (Inl (Wrap err errGetPC)), w2)
                     | (Inr pc, w2) \<Rightarrow>
                         (let cd = Credentials pc
                          in case resource_CommonCredentialExtractor c (Source cd)
                                    (CommonCredentialSelectors cd) w2 of
                               (Inl err, w3) \<Rightarrow> (Returns (Inl (Wrap err errGetCreds)), w3)
                             | (Inr data, w3) \<Rightarrow>
                                 (case newServiceFn c data w3 of
                                    (Inl err, w4) \<Rightarrow>
                                      (Returns (Inl (Wrap err errNewClient)), w4)
                                  | (Inr svc, w4) \<Rightarrow>
                                      (Returns (Inr \<lparr>service = svc, apiBase = APIBase pc,
                                                     apiKey = data_APIKey c data\<rparr>),
                                       w4))))))
      | _ \<Rightarrow>
          (Returns (Inl (New errNotKey)), w))"

section \<open>Auxiliary definitions for the statements\<close>

text \<open>The request that \<open>Create\<close> hands to the HTTP client, given the encoded payload.\<close>

definition generate_request :: "'svc external \<Rightarrow> byte list \<Rightarrow> Request" where
  "generate_request c body =
     \<lparr>Method = ''POST'', URL = apiBase c @ ''/key/generate'',
      Header = [''Content-Type'' \<mapsto> [''application/json''],
                ''Authorization'' \<mapsto> [''Bearer '' @ apiKey c]],
      Body = body\<rparr>"

text \<open>A caller that invokes \<open>Delete\<close> \<open>n\<close> times in a row on what the last call left.\<close>

primrec Delete_repeat ::
  "'w runtime \<Rightarrow> 'svc external \<Rightarrow> nat \<Rightarrow> managed \<Rightarrow> 'w world
    \<Rightarrow> error option list \<times> managed \<times> 'w world" where
  "Delete_repeat rt c 0 mg s = ([], mg, s)"
| "Delete_repeat rt c (Suc n) mg s =
     (case Delete rt c mg s of
        (r, mg1, s1) \<Rightarrow>
          (case Delete_repeat rt c n mg1 s1 of
             (rs, mg2, s2) \<Rightarrow> (r # rs, mg2, s2)))"

text \<open>The record \<open>cr\<close> with \<open>status.atProvider\<close> replaced and everything else kept.\<close>

definition with_AtProvider :: "KeyObservation \<Rightarrow> Key \<Rightarrow> Key" where
  "with_AtProvider ob cr = cr\<lparr>Status := (Status cr)\<lparr>AtProvider := ob\<rparr>\<rparr>"

section \<open>A concrete scenario\<close>

text \<open>
  The scenario of the specification: the record \<open>k1\<close> asks for a key of duration
  \<open>24h\<close> with the alias \<open>svc-a\<close>, the ProviderConfig \<open>pc1\<close> points at the service, and the
  service answers with the key \<open>sk-123\<close> and the status \<open>generated\<close>. The collaborators
  are stand-ins that log the calls made to them: the cluster's state is the list of calls
  to the connector's collaborators, the remote service's state the list of requests sent.
\<close>

datatype call = CallTrack | CallGet string | CallExtract string | CallNewService "byte list"

definition string_of_bytes :: "byte list \<Rightarrow> string" where
  "string_of_bytes data = map (\<lambda>b. char_of (unat b)) data"

definition scenario_connector ::
  "error option \<Rightarrow> error + ProviderConfig \<Rightarrow> error + byte list \<Rightarrow> error + unit
    \<Rightarrow> (call list, unit) connector" where
  "scenario_connector t g x n =
     \<lparr>usage_Track = (\<lambda>mg w. (t, w @ [CallTrack])),
      kube_Get = (\<lambda>name w. (g, w @ [CallGet name])),
      resource_CommonCredentialExtractor = (\<lambda>src sel w. (x, w @ [CallExtract src])),
      newServiceFn = (\<lambda>data w. (n, w @ [CallNewService data])),
      data_APIKey = string_of_bytes\<rparr>"

definition k1 :: Key where
  "k1 =
     \<lparr>Meta = \<lparr>Generation = 1, Annotations = []\<rparr>,
      Spec = \<lparr>ProviderConfigReference = Some \<lparr>Name = ''pc1''\<rparr>,
              ForProvider = \<lparr>Duration = ''24h'', KeyAlias = ''svc-a'', Key = '''',
                TeamID = '''', UserID = '''', Models = None, MaxBudget = 0,
                BudgetDuration = '''', Metadata = None\<rparr>\<rparr>,
      Status = \<lparr>Conditions = [],
                AtProvider = \<lparr>obs_Key = '''', obs_Expires = metav1_Time 0,
                  obs_UserID = '''', obs_Status = ''''\<rparr>\<rparr>\<rparr>"

definition ob1 :: KeyObservation where
  "ob1 = \<lparr>obs_Key = ''sk-123'', obs_Expires = metav1_Time 0, obs_UserID = '''',
          obs_Status = ''generated''\<rparr>"

definition team1 :: Team where
  "team1 = \<lparr>ConfigurableField = ''blue'', ObservableField = ''''\<rparr>"

definition pc1 :: ProviderConfig where
  "pc1 =
     \<lparr>Credentials = \<lparr>Source = ''Secret'',
        CommonCredentialSelectors =
          \<lparr>Fs = None, Env = None, SecretRef = Some ''litellm-creds''\<rparr>\<rparr>,
      APIBase = ''http://litellm:4000''\<rparr>"

definition creds1 :: "byte list" where
  "creds1 = bytes_of ''sk-master''"

text \<open>
  An abridged rendering of a Key in the manner of the verb \<open>%+v\<close>: the struct's fields by
  name, of which the string fields of \<open>spec.forProvider\<close> and \<open>status.atProvider\<close> that
  the scenario sets are shown.
\<close>

definition render_v :: "Key \<Rightarrow> string" where
  "render_v cr =
     ''&{Spec:{ForProvider:{Duration:'' @ Duration (ForProvider (Spec cr)) @
     '' KeyAlias:'' @ KeyAlias (ForProvider (Spec cr)) @
     ''}} Status:{AtProvider:{Key:'' @ obs_Key (AtProvider (Status cr)) @
     '' UserID:'' @ obs_UserID (AtProvider (Status cr)) @
     '' Status:'' @ obs_Status (AtProvider (Status cr)) @ ''}}}''"

text \<open>
  The stand-in runtime answers every request with \<open>reply\<close> and logs the request. Its URL
  parser rejects a URL that holds an ASCII control character, as \<open>net/url\<close> does; its
  encoder writes the duration and the alias; its decoder accepts the body \<open>ok\<close> as the
  scenario's response.
\<close>

definition scenario_runtime :: "error + Response \<Rightarrow> (Request list) runtime" where
  "scenario_runtime reply =
     \<lparr>json_Marshal = (\<lambda>p.
        case (p ''duration'', p ''key_alias'') of
          (Some (StringVal d), Some (StringVal a)) \<Rightarrow> Inr (bytes_of (d @ '','' @ a))
        | _ \<Rightarrow> Inl (New ''json: unsupported type'')),
      url_Parse = (\<lambda>u.
        if list_ex (\<lambda>ch. (of_char ch :: nat) < 32 \<or> (of_char ch :: nat) = 127) u
        then Some (New ''net/url: invalid control character in URL'') else None),
      client_Do = (\<lambda>req w. (reply, w @ [req])),
      json_Decode = (\<lambda>b.
        if b = bytes_of ''ok''
        then Inr \<lparr>resp_Key = ''sk-123'', resp_Expires = 0, resp_UserID = '''',
                  resp_Status = ''generated''\<rparr>
        else Inl (New ''invalid character'')),
      fmt_Sprintf = (\<lambda>format cr. take (length format - 3) format @ render_v cr)\<rparr>"

definition reply_ok :: "error + Response" where
  "reply_ok = Inr \<lparr>StatusCode = 200, resp_Body = bytes_of ''ok''\<rparr>"

definition reply_refused :: "error + Response" where
  "reply_refused = Inl (New ''dial tcp: connection refused'')"

definition reply_garbled :: "error + Response" where
  "reply_garbled = Inr \<lparr>StatusCode = 502, resp_Body = bytes_of ''<html>''\<rparr>"

definition ext1 :: "unit external" where
  "ext1 = \<lparr>service = (), apiBase = ''http://litellm:4000'', apiKey = ''sk-master''\<rparr>"


definition s0 :: "(Request list) world" where
  "s0 = \<lparr>remote = [], stdout = ''''\<rparr>"

section \<open>Properties\<close>

subsection \<open>Shared lemmas\<close>




lemma string_of_bytes_of: "string_of_bytes (bytes_of str) = str"
proof -
  have one: "char_of (unat (of_char ch :: 8 word)) = ch" for ch
  proof -
    have "(of_char ch :: 8 word) = of_nat (of_char ch)"
      by (simp add: of_nat_of_char)
    then have "unat (of_char ch :: 8 word) = of_char ch mod 256"
      by (simp only: unat_of_nat) simp
    then show ?thesis by simp
  qed
  show ?thesis
    by (induction str) (simp_all add: string_of_bytes_def bytes_of_def one)
qed

text \<open>What \<open>Create\<close> does in the scenario, for each answer of the service.\<close>

lemma scenario_Create_ok:
  "Create (scenario_runtime reply_ok) ext1 (KeyMg k1) s0 =
     (Inr \<lparr>creation_ConnectionDetails = [''key'' \<mapsto> bytes_of ''sk-123'']\<rparr>,
      KeyMg (with_AtProvider ob1 k1),
      s0\<lparr>remote := [generate_request ext1 (bytes_of ''24h,svc-a'')]\<rparr>)"
  by (simp add: Create_def scenario_runtime_def reply_ok_def ext1_def k1_def s0_def ob1_def generate_request_def
        Create_payload_def http_NewRequest_def Header_Set_def set_AtProvider_def
        with_AtProvider_def Let_def bytes_of_def)

lemma scenario_Create_refused:
  "Create (scenario_runtime reply_refused) ext1 (KeyMg k1) s0 =
     (Inl (Wrap (New ''dial tcp: connection refused'') ''failed to create key''),
      KeyMg k1,
      s0\<lparr>remote := [generate_request ext1 (bytes_of ''24h,svc-a'')]\<rparr>)"
  by (simp add: Create_def scenario_runtime_def reply_refused_def ext1_def k1_def s0_def generate_request_def
        Create_payload_def http_NewRequest_def Header_Set_def Let_def bytes_of_def)

lemma scenario_Create_garbled:
  "Create (scenario_runtime reply_garbled) ext1 (KeyMg k1) s0 =
     (Inl (Wrap (New ''invalid character'') ''failed to decode key response''),
      KeyMg k1,
      s0\<lparr>remote := [generate_request ext1 (bytes_of ''24h,svc-a'')]\<rparr>)"
  by (simp add: Create_def scenario_runtime_def reply_garbled_def ext1_def k1_def s0_def generate_request_def
        Create_payload_def http_NewRequest_def Header_Set_def Let_def bytes_of_def)



lemma scenario_key_changed: "with_AtProvider ob1 k1 \<noteq> k1"
  by (simp add: with_AtProvider_def ob1_def k1_def)

subsection \<open>Observe\<close>

text \<open>
  C2. For every record of kind Key, Observe returns no error and an observation with
  ResourceExists and ResourceUpToDate both true and no connection details, whatever the
  record's desired parameters, its status and the state of the remote service are.
\<close>

theorem Observe_Key_up_to_date:
  "fst (Observe rt c (KeyMg cr) s) =
     Inr \<lparr>ResourceExists = True, ResourceUpToDate = True, ConnectionDetails = Map.empty\<rparr>"
  by (simp add: Observe_def)

subsection \<open>Connect\<close>

lemma Connect_not_Key:
  "(\<forall>cr. mg \<noteq> KeyMg cr) \<Longrightarrow> Connect c mg w = (Returns (Inl (New errNotKey)), w)"
  by (cases mg) (simp_all add: Connect_def)

lemma Connect_client_only_after_all_steps:
  assumes "Connect c mg w = (Returns (Inr x), w')"
  shows "\<exists>cr ref pc data svc w1 w2 w3.
           mg = KeyMg cr \<and> usage_Track c mg w = (None, w1) \<and>
           GetProviderConfigReference cr = Some ref \<and>
           kube_Get c (Name ref) w1 = (Inr pc, w2) \<and>
           resource_CommonCredentialExtractor c (Source (Credentials pc))
             (CommonCredentialSelectors (Credentials pc)) w2 = (Inr data, w3) \<and>
           newServiceFn c data w3 = (Inr svc, w') \<and>
           x = \<lparr>service = svc, apiBase = APIBase pc, apiKey = data_APIKey c data\<rparr>"
  using assms
  by (auto simp: Connect_def Let_def
           split: managed.splits prod.splits option.splits sum.splits)

lemma step_errors_distinct:
  "distinct [New errNotKey, Wrap e1 errTrackPCUsage, Wrap e2 errGetPC,
             Wrap e3 errGetCreds, Wrap e4 errNewClient]"
  by (simp add: errTrackPCUsage_def errGetPC_def errGetCreds_def errNewClient_def)

lemma step_messages_distinct:
  "distinct [Error (New errNotKey), Error (Wrap e1 errTrackPCUsage), Error (Wrap e2 errGetPC),
             Error (Wrap e3 errGetCreds), Error (Wrap e4 errNewClient)]"
  by (simp add: errNotKey_def errTrackPCUsage_def errGetPC_def errGetCreds_def errNewClient_def)

text \<open>
  C3. Connect runs its steps in the order type check, usage tracking, fetch of the
  ProviderConfig, credential extraction, client construction. A record that is not a Key
  is refused before anything is called; the failure of a later step returns that step's
  own error, wrapped around the cause, in the state the failing call left, so no later
  step has run; a client is returned only when all four calls succeeded one after the
  other, and it is bound to the ProviderConfig's API base and the extracted credential.
  The five errors differ from one another, as values and in their messages, whatever the
  causes are.
\<close>

theorem Connect_steps_in_order:
  "((\<forall>cr. mg \<noteq> KeyMg cr) \<longrightarrow> Connect c mg w = (Returns (Inl (New errNotKey)), w))
   \<and> (\<forall>cr err w1.
         mg = KeyMg cr \<and> usage_Track c mg w = (Some err, w1) \<longrightarrow>
         Connect c mg w = (Returns (Inl (Wrap err errTrackPCUsage)), w1))
   \<and> (\<forall>cr ref err w1 w2.
         mg = KeyMg cr \<and> usage_Track c mg w = (None, w1) \<and>
         GetProviderConfigReference cr = Some ref \<and>
         kube_Get c (Name ref) w1 = (Inl err, w2) \<longrightarrow>
         Connect c mg w = (Returns (Inl (Wrap err errGetPC)), w2))
   \<and> (\<forall>cr ref pc err w1 w2 w3.
         mg = KeyMg cr \<and> usage_Track c mg w = (None, w1) \<and>
         GetProviderConfigReference cr = Some ref \<and>
         kube_Get c (Name ref) w1 = (Inr pc, w2) \<and>
         resource_CommonCredentialExtractor c (Source (Credentials pc))
           (CommonCredentialSelectors (Credentials pc)) w2 = (Inl err, w3) \<longrightarrow>
         Connect c mg w = (Returns (Inl (Wrap err errGetCreds)), w3))
   \<and> (\<forall>cr ref pc data err w1 w2 w3 w4.
         mg = KeyMg cr \<and> usage_Track c mg w = (None, w1) \<and>
         GetProviderConfigReference cr = Some ref \<and>
         kube_Get c (Name ref) w1 = (Inr pc, w2) \<and>
         resource_CommonCredentialExtractor c (Source (Credentials pc))
           (CommonCredentialSelectors (Credentials pc)) w2 = (Inr data, w3) \<and>
         newServiceFn c data w3 = (Inl err, w4) \<longrightarrow>
         Connect c mg w = (Returns (Inl (Wrap err errNewClient)), w4))
   \<and> (\<forall>x w'.
         Connect c mg w = (Returns (Inr x), w') \<longrightarrow>
         (\<exists>cr ref pc data svc w1 w2 w3.
            mg = KeyMg cr \<and> usage_Track c mg w = (None, w1) \<and>
            GetProviderConfigReference cr = Some ref \<and>
            kube_Get c (Name ref) w1 = (Inr pc, w2) \<and>
            resource_CommonCredentialExtractor c (Source (Credentials pc))
              (CommonCredentialSelectors (Credentials pc)) w2 = (Inr data, w3) \<and>
            newServiceFn c data w3 = (Inr svc, w') \<and>
            x = \<lparr>service = svc, apiBase = APIBase pc, apiKey = data_APIKey c data\<rparr>))
   \<and> distinct [New errNotKey, Wrap e1 errTrackPCUsage, Wrap e2 errGetPC,
                Wrap e3 errGetCreds, Wrap e4 errNewClient]
   \<and> distinct [Error (New errNotKey), Error (Wrap e1 errTrackPCUsage),
                Error (Wrap e2 errGetPC), Error (Wrap e3 errGetCreds),
                Error (Wrap e4 errNewClient)]"
proof (intro conjI allI impI)
  assume "\<forall>cr. mg \<noteq> KeyMg cr"
  then show "Connect c mg w = (Returns (Inl (New errNotKey)), w)"
    by (rule Connect_not_Key)
next
  fix cr err w1
  assume "mg = KeyMg cr \<and> usage_Track c mg w = (Some err, w1)"
  then show "Connect c mg w = (Returns (Inl (Wrap err errTrackPCUsage)), w1)"
    by (auto simp: Connect_def)
next
  fix cr ref err w1 w2
  assume "mg = KeyMg cr \<and> usage_Track c mg w = (None, w1) \<and>
          GetProviderConfigReference cr = Some ref \<and>
          kube_Get c (Name ref) w1 = (Inl err, w2)"
  then show "Connect c mg w = (Returns (Inl (Wrap err errGetPC)), w2)"
    by (auto simp: Connect_def)
next
  fix cr ref pc err w1 w2 w3
  assume "mg = KeyMg cr \<and> usage_Track c mg w = (None, w1) \<and>
          GetProviderConfigReference cr = Some ref \<and>
          kube_Get c (Name ref) w1 = (Inr pc, w2) \<and>
          resource_CommonCredentialExtractor c (Source (Credentials pc))
            (CommonCredentialSelectors (Credentials pc)) w2 = (Inl err, w3)"
  then show "Connect c mg w = (Returns (Inl (Wrap err errGetCreds)), w3)"
    by (auto simp: Connect_def Let_def)
next
  fix cr ref pc data err w1 w2 w3 w4
  assume "mg = KeyMg cr \<and> usage_Track c mg w = (None, w1) \<and>
          GetProviderConfigReference cr = Some ref \<and>
          kube_Get c (Name ref) w1 = (Inr pc, w2) \<and>
          resource_CommonCredentialExtractor c (Source (Credentials pc))
            (CommonCredentialSelectors (Credentials pc)) w2 = (Inr data, w3) \<and>
          newServiceFn c data w3 = (Inl err, w4)"
  then show "Connect c mg w = (Returns (Inl (Wrap err errNewClient)), w4)"
    by (auto simp: Connect_def Let_def)
next
  fix x w'
  assume "Connect c mg w = (Returns (Inr x), w')"
  then show "\<exists>cr ref pc data svc w1 w2 w3.
            mg = KeyMg cr \<and> usage_Track c mg w = (None, w1) \<and>
            GetProviderConfigReference cr = Some ref \<and>
            kube_Get c (Name ref) w1 = (Inr pc, w2) \<and>
            resource_CommonCredentialExtractor c (Source (Credentials pc))
              (CommonCredentialSelectors (Credentials pc)) w2 = (Inr data, w3) \<and>
            newServiceFn c data w3 = (Inr svc, w') \<and>
            x = \<lparr>service = svc, apiBase = APIBase pc, apiKey = data_APIKey c data\<rparr>"
    by (rule Connect_client_only_after_all_steps)
next
  show "distinct [New errNotKey, Wrap e1 errTrackPCUsage, Wrap e2 errGetPC,
                Wrap e3 errGetCreds, Wrap e4 errNewClient]"
    by (rule step_errors_distinct)
next
  show "distinct [Error (New errNotKey), Error (Wrap e1 errTrackPCUsage),
                Error (Wrap e2 errGetPC), Error (Wrap e3 errGetCreds),
                Error (Wrap e4 errNewClient)]"
    by (rule step_messages_distinct)
qed

text \<open>
  In the scenario the log of calls shows how far Connect went: nothing for a Team, the
  tracker alone when tracking fails, one call more for each later failure, and all four
  calls, in order, when the client is returned.
\<close>

theorem Connect_steps_in_order_witness:
  "Connect (scenario_connector None (Inr pc1) (Inr creds1) (Inr ())) (TeamMg team1) [] =
     (Returns (Inl (New errNotKey)), [])
   \<and> Connect (scenario_connector (Some (New ''conflict'')) (Inr pc1) (Inr creds1) (Inr ()))
       (KeyMg k1) [] =
     (Returns (Inl (Wrap (New ''conflict'') errTrackPCUsage)), [CallTrack])
   \<and> Connect (scenario_connector None (Inl (New ''not found'')) (Inr creds1) (Inr ()))
       (KeyMg k1) [] =
     (Returns (Inl (Wrap (New ''not found'') errGetPC)), [CallTrack, CallGet ''pc1''])
   \<and> Connect (scenario_connector None (Inr pc1) (Inl (New ''no such secret'')) (Inr ()))
       (KeyMg k1) [] =
     (Returns (Inl (Wrap (New ''no such secret'') errGetCreds)),
      [CallTrack, CallGet ''pc1'', CallExtract ''Secret''])
   \<and> Connect (scenario_connector None (Inr pc1) (Inr creds1) (Inl (New ''bad credentials'')))
       (KeyMg k1) [] =
     (Returns (Inl (Wrap (New ''bad credentials'') errNewClient)),
      [CallTrack, CallGet ''pc1'', CallExtract ''Secret'', CallNewService creds1])
   \<and> Connect (scenario_connector None (Inr pc1) (Inr creds1) (Inr ())) (KeyMg k1) [] =
     (Returns (Inr ext1),
      [CallTrack, CallGet ''pc1'', CallExtract ''Secret'', CallNewService creds1])
   \<and> (\<exists>cr ref pc data svc w1 w2 w3.
        KeyMg k1 = KeyMg cr \<and>
        usage_Track (scenario_connector None (Inr pc1) (Inr creds1) (Inr ())) (KeyMg k1) [] =
          (None, w1) \<and>
        GetProviderConfigReference cr = Some ref \<and>
        kube_Get (scenario_connector None (Inr pc1) (Inr creds1) (Inr ())) (Name ref) w1 =
          (Inr pc, w2) \<and>
        resource_CommonCredentialExtractor
          (scenario_connector None (Inr pc1) (Inr creds1) (Inr ()))
          (Source (Credentials pc)) (CommonCredentialSelectors (Credentials pc)) w2 =
          (Inr data, w3) \<and>
        newServiceFn (scenario_connector None (Inr pc1) (Inr creds1) (Inr ())) data w3 =
          (Inr svc, [CallTrack, CallGet ''pc1'', CallExtract ''Secret'',
                     CallNewService creds1]) \<and>
        ext1 = \<lparr>service = svc, apiBase = APIBase pc,
                apiKey = data_APIKey (scenario_connector None (Inr pc1) (Inr creds1) (Inr ()))
                           data\<rparr>)"
proof -
  have ref: "GetProviderConfigReference k1 = Some \<lparr>Name = ''pc1''\<rparr>"
    by (simp add: GetProviderConfigReference_def k1_def)
  have src: "Source (Credentials pc1) = ''Secret''"
    by (simp add: pc1_def)
  have a: "Connect (scenario_connector None (Inr pc1) (Inr creds1) (Inr ())) (TeamMg team1) [] =
     (Returns (Inl (New errNotKey)), [])"
    by (rule Connect_steps_in_order [THEN conjunct1, rule_format]) simp
  have b: "Connect (scenario_connector (Some (New ''conflict'')) (Inr pc1) (Inr creds1) (Inr ()))
       (KeyMg k1) [] =
     (Returns (Inl (Wrap (New ''conflict'') errTrackPCUsage)), [CallTrack])"
    by (rule Connect_steps_in_order [THEN conjunct2, THEN conjunct1, rule_format, of _ k1])
      (simp add: scenario_connector_def)
  have c: "Connect (scenario_connector None (Inl (New ''not found'')) (Inr creds1) (Inr ()))
       (KeyMg k1) [] =
     (Returns (Inl (Wrap (New ''not found'') errGetPC)), [CallTrack, CallGet ''pc1''])"
    by (rule Connect_steps_in_order
          [THEN conjunct2, THEN conjunct2, THEN conjunct1, rule_format,
           of _ k1 _ _ "[CallTrack]" "\<lparr>Name = ''pc1''\<rparr>"])
      (simp add: scenario_connector_def ref)
  have d: "Connect (scenario_connector None (Inr pc1) (Inl (New ''no such secret'')) (Inr ()))
       (KeyMg k1) [] =
     (Returns (Inl (Wrap (New ''no such secret'') errGetCreds)),
      [CallTrack, CallGet ''pc1'', CallExtract ''Secret''])"
    by (rule Connect_steps_in_order
          [THEN conjunct2, THEN conjunct2, THEN conjunct2, THEN conjunct1, rule_format,
           of _ k1 _ _ "[CallTrack]" "\<lparr>Name = ''pc1''\<rparr>" pc1 "[CallTrack, CallGet ''pc1'']"])
      (simp add: scenario_connector_def ref src)
  have e: "Connect (scenario_connector None (Inr pc1) (Inr creds1) (Inl (New ''bad credentials'')))
       (KeyMg k1) [] =
     (Returns (Inl (Wrap (New ''bad credentials'') errNewClient)),
      [CallTrack, CallGet ''pc1'', CallExtract ''Secret'', CallNewService creds1])"
    by (rule Connect_steps_in_order
          [THEN conjunct2, THEN conjunct2, THEN conjunct2, THEN conjunct2, THEN conjunct1,
           rule_format,
           of _ k1 _ _ "[CallTrack]" "\<lparr>Name = ''pc1''\<rparr>" pc1 "[CallTrack, CallGet ''pc1'']"
              creds1 "[CallTrack, CallGet ''pc1'', CallExtract ''Secret'']"])
      (simp add: scenario_connector_def ref src)
  have f: "Connect (scenario_connector None (Inr pc1) (Inr creds1) (Inr ())) (KeyMg k1) [] =
     (Returns (Inr ext1),
      [CallTrack, CallGet ''pc1'', CallExtract ''Secret'', CallNewService creds1])"
    by (simp add: Connect_def scenario_connector_def ref src creds1_def string_of_bytes_of
          Let_def)
      (simp add: pc1_def ext1_def)
  have g: "\<exists>cr ref pc data svc w1 w2 w3.
        KeyMg k1 = KeyMg cr \<and>
        usage_Track (scenario_connector None (Inr pc1) (Inr creds1) (Inr ())) (KeyMg k1) [] =
          (None, w1) \<and>
        GetProviderConfigReference cr = Some ref \<and>
        kube_Get (scenario_connector None (Inr pc1) (Inr creds1) (Inr ())) (Name ref) w1 =
          (Inr pc, w2) \<and>
        resource_CommonCredentialExtractor
          (scenario_connector None (Inr pc1) (Inr creds1) (Inr ()))
          (Source (Credentials pc)) (CommonCredentialSelectors (Credentials pc)) w2 =
          (Inr data, w3) \<and>
        newServiceFn (scenario_connector None (Inr pc1) (Inr creds1) (Inr ())) data w3 =
          (Inr svc, [CallTrack, CallGet ''pc1'', CallExtract ''Secret'',
                     CallNewService creds1]) \<and>
        ext1 = \<lparr>service = svc, apiBase = APIBase pc,
                apiKey = data_APIKey (scenario_connector None (Inr pc1) (Inr creds1) (Inr ()))
                           data\<rparr>"
    by (rule Connect_steps_in_order
          [THEN conjunct2, THEN conjunct2, THEN conjunct2, THEN conjunct2, THEN conjunct2,
           THEN conjunct1, rule_format, OF f])
  from a b c d e f g show ?thesis by (intro conjI)
qed

subsection \<open>Create\<close>












text \<open>
  C9. Whenever Create returns an error, whichever step failed and whatever kind the
  record has, the record is exactly as it was before the call; the record differs after
  the call only if the response was received and decoded.
\<close>

theorem Create_error_leaves_record:
  "(\<forall>e. fst (Create rt c mg s) = Inl e \<longrightarrow> fst (snd (Create rt c mg s)) = mg)
   \<and> (fst (snd (Create rt c mg s)) \<noteq> mg \<longrightarrow>
        (\<exists>cr req resp w r.
           mg = KeyMg cr \<and> client_Do rt req (remote s) = (Inr resp, w) \<and>
           json_Decode rt (resp_Body resp) = Inr r \<and>
           fst (snd (Create rt c mg s)) = KeyMg (set_AtProvider r cr)))"
  by (auto simp: Create_def Let_def split: managed.splits sum.splits prod.splits)

text \<open>
  In the scenario a response that does not decode leaves \<open>k1\<close> as it was, although the
  request was sent; the response that decodes changes it.
\<close>

theorem Create_error_leaves_record_witness:
  "fst (Create (scenario_runtime reply_garbled) ext1 (KeyMg k1) s0) =
     Inl (Wrap (New ''invalid character'') ''failed to decode key response'')
   \<and> fst (snd (Create (scenario_runtime reply_garbled) ext1 (KeyMg k1) s0)) = KeyMg k1
   \<and> fst (snd (Create (scenario_runtime reply_ok) ext1 (KeyMg k1) s0)) \<noteq> KeyMg k1
   \<and> (\<exists>cr req resp w r.
        KeyMg k1 = KeyMg cr \<and>
        client_Do (scenario_runtime reply_ok) req (remote s0) = (Inr resp, w) \<and>
        json_Decode (scenario_runtime reply_ok) (resp_Body resp) = Inr r \<and>
        fst (snd (Create (scenario_runtime reply_ok) ext1 (KeyMg k1) s0)) =
          KeyMg (set_AtProvider r cr))"
proof -
  have g: "fst (Create (scenario_runtime reply_garbled) ext1 (KeyMg k1) s0) =
     Inl (Wrap (New ''invalid character'') ''failed to decode key response'')"
    by (simp add: scenario_Create_garbled)
  have c: "fst (snd (Create (scenario_runtime reply_ok) ext1 (KeyMg k1) s0)) \<noteq> KeyMg k1"
    by (simp add: scenario_Create_ok scenario_key_changed)
  have kept: "fst (snd (Create (scenario_runtime reply_garbled) ext1 (KeyMg k1) s0)) = KeyMg k1"
    by (rule Create_error_leaves_record [THEN conjunct1, rule_format, OF g])
  have written: "\<exists>cr req resp w r.
        KeyMg k1 = KeyMg cr \<and>
        client_Do (scenario_runtime reply_ok) req (remote s0) = (Inr resp, w) \<and>
        json_Decode (scenario_runtime reply_ok) (resp_Body resp) = Inr r \<and>
        fst (snd (Create (scenario_runtime reply_ok) ext1 (KeyMg k1) s0)) =
          KeyMg (set_AtProvider r cr)"
    by (rule Create_error_leaves_record [THEN conjunct2, rule_format, OF c])
  from g kept c written show ?thesis by (intro conjI)
qed

subsection \<open>The kind check of every method\<close>

lemma Error_Create_not_errNotKey:
  "Error (Wrap err ''failed to marshal payload'') \<noteq> errNotKey"
  "Error (Wrap err ''failed to create request'') \<noteq> errNotKey"
  "Error (Wrap err ''failed to create key'') \<noteq> errNotKey"
  "Error (Wrap err ''failed to decode key response'') \<noteq> errNotKey"
  by (simp_all add: errNotKey_def)

lemma Create_Key_error:
  assumes "fst (Create rt c (KeyMg cr) s) = Inl e"
  shows "e \<noteq> New errNotKey \<and> Error e \<noteq> errNotKey"
  using assms Error_Create_not_errNotKey
  by (auto simp: Create_def Let_def split: sum.splits prod.splits)

text \<open>
  C6. Given a managed resource that is not a Key, each of Observe, Create, Update and
  Delete returns the same error, \<open>errors.New\<close> of \<open>managed resource is not a Key custom
  resource\<close>, with the resource, the remote service and stdout untouched. On a Key,
  Observe, Update and Delete return no error at all, and every error Create returns
  (encoding, request construction, transport, decoding) is a different error with a
  different message.
\<close>

theorem not_a_Key_rejected_first:
  "((\<forall>cr. mg \<noteq> KeyMg cr) \<longrightarrow>
      Observe rt c mg s = (Inl (New errNotKey), mg, s) \<and>
      Create rt c mg s = (Inl (New errNotKey), mg, s) \<and>
      Update rt c mg s = (Inl (New errNotKey), mg, s) \<and>
      Delete rt c mg s = (Some (New errNotKey), mg, s))
   \<and> (\<forall>cr e. fst (Observe rt c (KeyMg cr) s) \<noteq> Inl e)
   \<and> (\<forall>cr e. fst (Update rt c (KeyMg cr) s) \<noteq> Inl e)
   \<and> (\<forall>cr e. fst (Delete rt c (KeyMg cr) s) \<noteq> Some e)
   \<and> (\<forall>cr e. fst (Create rt c (KeyMg cr) s) = Inl e \<longrightarrow>
         e \<noteq> New errNotKey \<and> Error e \<noteq> errNotKey)"
proof (intro conjI allI impI)
  assume "\<forall>cr. mg \<noteq> KeyMg cr"
  then show "Observe rt c mg s = (Inl (New errNotKey), mg, s)"
    "Create rt c mg s = (Inl (New errNotKey), mg, s)"
    "Update rt c mg s = (Inl (New errNotKey), mg, s)"
    "Delete rt c mg s = (Some (New errNotKey), mg, s)"
    by (cases mg; simp add: Observe_def Create_def Update_def Delete_def)+
next
  fix cr e
  show "fst (Observe rt c (KeyMg cr) s) \<noteq> Inl e" by (simp add: Observe_def)
  show "fst (Update rt c (KeyMg cr) s) \<noteq> Inl e" by (simp add: Update_def)
  show "fst (Delete rt c (KeyMg cr) s) \<noteq> Some e" by (simp add: Delete_def)
  assume "fst (Create rt c (KeyMg cr) s) = Inl e"
  then show "e \<noteq> New errNotKey" "Error e \<noteq> errNotKey"
    using Create_Key_error by blast+
qed

text \<open>
  In the scenario a Team is refused by all four methods, and the error of a refused
  connection differs from that refusal.
\<close>

theorem not_a_Key_rejected_first_witness:
  "Observe (scenario_runtime reply_ok) ext1 (TeamMg team1) s0 =
     (Inl (New errNotKey), TeamMg team1, s0)
   \<and> Create (scenario_runtime reply_ok) ext1 (TeamMg team1) s0 =
     (Inl (New errNotKey), TeamMg team1, s0)
   \<and> Update (scenario_runtime reply_ok) ext1 (TeamMg team1) s0 =
     (Inl (New errNotKey), TeamMg team1, s0)
   \<and> Delete (scenario_runtime reply_ok) ext1 (TeamMg team1) s0 =
     (Some (New errNotKey), TeamMg team1, s0)
   \<and> fst (Create (scenario_runtime reply_refused) ext1 (KeyMg k1) s0) =
       Inl (Wrap (New ''dial tcp: connection refused'') ''failed to create key'')
   \<and> Wrap (New ''dial tcp: connection refused'') ''failed to create key'' \<noteq> New errNotKey
   \<and> Error (Wrap (New ''dial tcp: connection refused'') ''failed to create key'') \<noteq>
       errNotKey"
proof -
  have t: "\<forall>cr. TeamMg team1 \<noteq> KeyMg cr" by simp
  have r: "fst (Create (scenario_runtime reply_refused) ext1 (KeyMg k1) s0) =
       Inl (Wrap (New ''dial tcp: connection refused'') ''failed to create key'')"
    by (simp add: scenario_Create_refused)
  have refused: "Observe (scenario_runtime reply_ok) ext1 (TeamMg team1) s0 =
     (Inl (New errNotKey), TeamMg team1, s0)
   \<and> Create (scenario_runtime reply_ok) ext1 (TeamMg team1) s0 =
     (Inl (New errNotKey), TeamMg team1, s0)
   \<and> Update (scenario_runtime reply_ok) ext1 (TeamMg team1) s0 =
     (Inl (New errNotKey), TeamMg team1, s0)
   \<and> Delete (scenario_runtime reply_ok) ext1 (TeamMg team1) s0 =
     (Some (New errNotKey), TeamMg team1, s0)"
    by (rule not_a_Key_rejected_first [THEN conjunct1, THEN mp, OF t])
  have other: "Wrap (New ''dial tcp: connection refused'') ''failed to create key'' \<noteq>
       New errNotKey
   \<and> Error (Wrap (New ''dial tcp: connection refused'') ''failed to create key'') \<noteq>
       errNotKey"
    by (rule not_a_Key_rejected_first
          [THEN conjunct2, THEN conjunct2, THEN conjunct2, THEN conjunct2,
           THEN spec, THEN spec, THEN mp, OF r])
  from refused r other show ?thesis by simp
qed

subsection \<open>Delete\<close>

lemma Delete_repeat_Key:
  "fst (Delete_repeat rt c n (KeyMg cr) s) = replicate n None \<and>
   fst (snd (Delete_repeat rt c n (KeyMg cr) s)) = KeyMg cr \<and>
   remote (snd (snd (Delete_repeat rt c n (KeyMg cr) s))) = remote s"
proof (induction n arbitrary: s)
  case 0
  show ?case by simp
next
  case (Suc n)
  from Suc [of "fmt_Printf rt ''Deleting: %+v'' cr s"] show ?case
    by (auto simp: Delete_def fmt_Printf_def split: prod.splits)
qed

text \<open>
  C7. For every Key record and every state of the remote service (the external resource
  present or absent), Delete returns success; any number \<open>n\<close> of Delete calls in a row
  return success \<open>n\<close> times, and afterwards the record is the same and so is the remote
  service.
\<close>

theorem Delete_idempotent:
  "fst (Delete rt c (KeyMg cr) s) = None \<and>
   fst (Delete_repeat rt c n (KeyMg cr) s) = replicate n None \<and>
   fst (snd (Delete_repeat rt c n (KeyMg cr) s)) = KeyMg cr \<and>
   remote (snd (snd (Delete_repeat rt c n (KeyMg cr) s))) = remote s"
  using Delete_repeat_Key [of rt c n cr s] by (simp add: Delete_def)

subsection \<open>What depends on status.atProvider\<close>

text \<open>
  What does not depend on \<open>status.atProvider\<close>. Take a Key record and the same record
  with any other \<open>status.atProvider\<close>. Create builds the same payload for both, encodes
  it to the same bytes, returns the same result and leaves the remote service and stdout
  in the same state. Observe, Update and Delete return the same result for both and do not
  touch the remote service; what each of them appends to stdout is the rendering of the
  whole record it was given.
\<close>

lemma AtProvider_not_an_input:
  "Create_payload (with_AtProvider ob cr) = Create_payload cr
   \<and> json_Marshal rt (Create_payload (with_AtProvider ob cr)) =
       json_Marshal rt (Create_payload cr)
   \<and> fst (Create rt c (KeyMg (with_AtProvider ob cr)) s) = fst (Create rt c (KeyMg cr) s)
   \<and> snd (snd (Create rt c (KeyMg (with_AtProvider ob cr)) s)) =
       snd (snd (Create rt c (KeyMg cr) s))
   \<and> fst (Observe rt c (KeyMg (with_AtProvider ob cr)) s) = fst (Observe rt c (KeyMg cr) s)
   \<and> fst (Update rt c (KeyMg (with_AtProvider ob cr)) s) = fst (Update rt c (KeyMg cr) s)
   \<and> fst (Delete rt c (KeyMg (with_AtProvider ob cr)) s) = fst (Delete rt c (KeyMg cr) s)
   \<and> remote (snd (snd (Observe rt c (KeyMg (with_AtProvider ob cr)) s))) = remote s
   \<and> remote (snd (snd (Update rt c (KeyMg (with_AtProvider ob cr)) s))) = remote s
   \<and> remote (snd (snd (Delete rt c (KeyMg (with_AtProvider ob cr)) s))) = remote s
   \<and> stdout (snd (snd (Observe rt c (KeyMg (with_AtProvider ob cr)) s))) =
       stdout s @ fmt_Sprintf rt ''Observing: %+v'' (with_AtProvider ob cr)
   \<and> stdout (snd (snd (Update rt c (KeyMg (with_AtProvider ob cr)) s))) =
       stdout s @ fmt_Sprintf rt ''Updating: %+v'' (with_AtProvider ob cr)
   \<and> stdout (snd (snd (Delete rt c (KeyMg (with_AtProvider ob cr)) s))) =
       stdout s @ fmt_Sprintf rt ''Deleting: %+v'' (with_AtProvider ob cr)"
proof -
  have p: "Create_payload (with_AtProvider ob cr) = Create_payload cr"
    by (simp add: Create_payload_def with_AtProvider_def)
  have c: "fst (Create rt c (KeyMg (with_AtProvider ob cr)) s) = fst (Create rt c (KeyMg cr) s)"
    "snd (snd (Create rt c (KeyMg (with_AtProvider ob cr)) s)) =
       snd (snd (Create rt c (KeyMg cr) s))"
    by (simp_all add: Create_def p Let_def split: sum.splits prod.splits)
  have o: "fst (Observe rt c (KeyMg (with_AtProvider ob cr)) s) = fst (Observe rt c (KeyMg cr) s)"
    "fst (Update rt c (KeyMg (with_AtProvider ob cr)) s) = fst (Update rt c (KeyMg cr) s)"
    "fst (Delete rt c (KeyMg (with_AtProvider ob cr)) s) = fst (Delete rt c (KeyMg cr) s)"
    by (simp_all add: Observe_def Update_def Delete_def)
  have r: "remote (snd (snd (Observe rt c (KeyMg (with_AtProvider ob cr)) s))) = remote s"
    "remote (snd (snd (Update rt c (KeyMg (with_AtProvider ob cr)) s))) = remote s"
    "remote (snd (snd (Delete rt c (KeyMg (with_AtProvider ob cr)) s))) = remote s"
    by (simp_all add: Observe_def Update_def Delete_def fmt_Printf_def)
  have t: "stdout (snd (snd (Observe rt c (KeyMg (with_AtProvider ob cr)) s))) =
       stdout s @ fmt_Sprintf rt ''Observing: %+v'' (with_AtProvider ob cr)"
    "stdout (snd (snd (Update rt c (KeyMg (with_AtProvider ob cr)) s))) =
       stdout s @ fmt_Sprintf rt ''Updating: %+v'' (with_AtProvider ob cr)"
    "stdout (snd (snd (Delete rt c (KeyMg (with_AtProvider ob cr)) s))) =
       stdout s @ fmt_Sprintf rt ''Deleting: %+v'' (with_AtProvider ob cr)"
    by (simp_all add: Observe_def Update_def Delete_def fmt_Printf_def)
  from p c o r t show ?thesis by simp
qed

text \<open>
  C8. Two Key records that differ only in \<open>status.atProvider\<close> are to be treated alike
  by Observe, Update and Delete. The code prints the record with \<open>fmt.Printf\<close> and the
  verb \<open>%+v\<close> in all three, under a comment that says these statements should be
  removed: in the scenario Observe prints one line for \<open>k1\<close> and a different line for
  \<open>k1\<close> with the created key in its status, and the second line shows the key \<open>sk-123\<close>.
\<close>

theorem Observe_prints_AtProvider:
  "stdout (snd (snd (Observe (scenario_runtime reply_ok) ext1 (KeyMg k1) s0))) =
     ''Observing: &{Spec:{ForProvider:{Duration:24h KeyAlias:svc-a}} Status:{AtProvider:{Key: UserID: Status:}}}''
   \<and> stdout (snd (snd (Observe (scenario_runtime reply_ok) ext1
        (KeyMg (with_AtProvider ob1 k1)) s0))) =
     ''Observing: &{Spec:{ForProvider:{Duration:24h KeyAlias:svc-a}} Status:{AtProvider:{Key:sk-123 UserID: Status:generated}}}''
   \<and> stdout (snd (snd (Observe (scenario_runtime reply_ok) ext1
        (KeyMg (with_AtProvider ob1 k1)) s0))) \<noteq>
     stdout (snd (snd (Observe (scenario_runtime reply_ok) ext1 (KeyMg k1) s0)))"
  by (simp add: Observe_def fmt_Printf_def render_v_def with_AtProvider_def scenario_runtime_def ext1_def k1_def s0_def ob1_def)

subsection \<open>What Observe, Update and Delete leave alone\<close>

text \<open>
  C10. Observe, Update and Delete return the managed resource exactly as they were given
  it, of whatever kind; for a Key, Observe and Update each return an empty map of
  connection details.
\<close>

theorem read_only_methods_frame:
  "fst (snd (Observe rt c mg s)) = mg \<and> fst (snd (Update rt c mg s)) = mg \<and>
   fst (snd (Delete rt c mg s)) = mg \<and>
   (\<exists>ob. fst (Observe rt c (KeyMg cr) s) = Inr ob \<and> ConnectionDetails ob = Map.empty) \<and>
   (\<exists>up. fst (Update rt c (KeyMg cr) s) = Inr up \<and> update_ConnectionDetails up = Map.empty)"
  by (simp add: Observe_def Update_def Delete_def split: managed.splits)

end
